theory Spec2Isabelle
  imports Complex_Main "HOL-Library.Extended_Nat"
begin

section \<open>JavaScript scalar values\<close>

text \<open>
  The game state store holds JavaScript scalars. Numbers are modelled as rationals
  (no NaN, no infinities, exact arithmetic); strings as \<open>string\<close>.
\<close>

datatype jsval = JUndefined | JNull | JBool bool | JNum rat | JStr string

text \<open>Truthiness, as used by \<open>||\<close> and by \<open>if\<close>.\<close>

fun truthy :: "jsval \<Rightarrow> bool" where
  "truthy JUndefined = False"
| "truthy JNull = False"
| "truthy (JBool b) = b"
| "truthy (JNum n) = (n \<noteq> 0)"
| "truthy (JStr s) = (s \<noteq> [])"

text \<open>\<open>a || b\<close> on values.\<close>

definition js_or :: "jsval \<Rightarrow> jsval \<Rightarrow> jsval" where
  "js_or a b = (if truthy a then a else b)"

text \<open>
  The relational operators first convert their operands. Two strings are compared
  by code units; otherwise both sides become numbers, where \<open>None\<close> stands for NaN.
  The conversion of a string to a number is the language's own and is taken as the
  parameter \<open>tn\<close>.
\<close>

fun str_less :: "string \<Rightarrow> string \<Rightarrow> bool" where
  "str_less [] [] = False"
| "str_less [] (y # ys) = True"
| "str_less (x # xs) [] = False"
| "str_less (x # xs) (y # ys) =
     (if (of_char x :: nat) < of_char y then True
      else if (of_char y :: nat) < of_char x then False
      else str_less xs ys)"

fun to_number :: "(string \<Rightarrow> rat option) \<Rightarrow> jsval \<Rightarrow> rat option" where
  "to_number tn JUndefined = None"
| "to_number tn JNull = Some 0"
| "to_number tn (JBool b) = Some (if b then 1 else 0)"
| "to_number tn (JNum n) = Some n"
| "to_number tn (JStr s) = tn s"

text \<open>\<open>a < b\<close>; \<open>None\<close> is the undefined outcome when a side is NaN.\<close>

fun js_lt :: "(string \<Rightarrow> rat option) \<Rightarrow> jsval \<Rightarrow> jsval \<Rightarrow> bool option" where
  "js_lt tn (JStr a) (JStr b) = Some (str_less a b)"
| "js_lt tn a b =
     (case (to_number tn a, to_number tn b) of
        (Some x, Some y) \<Rightarrow> Some (x < y)
      | _ \<Rightarrow> None)"

definition js_less :: "(string \<Rightarrow> rat option) \<Rightarrow> jsval \<Rightarrow> jsval \<Rightarrow> bool" where
  "js_less tn a b = (js_lt tn a b = Some True)"

definition js_greater :: "(string \<Rightarrow> rat option) \<Rightarrow> jsval \<Rightarrow> jsval \<Rightarrow> bool" where
  "js_greater tn a b = (js_lt tn b a = Some True)"

definition js_less_eq :: "(string \<Rightarrow> rat option) \<Rightarrow> jsval \<Rightarrow> jsval \<Rightarrow> bool" where
  "js_less_eq tn a b = (js_lt tn b a = Some False)"

definition js_greater_eq :: "(string \<Rightarrow> rat option) \<Rightarrow> jsval \<Rightarrow> jsval \<Rightarrow> bool" where
  "js_greater_eq tn a b = (js_lt tn a b = Some False)"

section \<open>StateManager\<close>

text \<open>
  The events the store emits on the global bus, kept as a trace in the store.
\<close>

datatype state_event =
    FLAG_SET jsval jsval "jsval option"
  | VARIABLE_SET jsval jsval "jsval option"
  | ITEM_ADD jsval int int
  | ITEM_REMOVE jsval int int

record state_manager =
  state :: "string \<rightharpoonup> jsval"
  flags :: "jsval \<rightharpoonup> jsval"
  variables :: "jsval \<rightharpoonup> jsval"
  inventory :: "jsval \<rightharpoonup> int"
  st_emitted :: "state_event list"

definition get :: "state_manager \<Rightarrow> string \<Rightarrow> jsval \<Rightarrow> jsval" where
  "get st key defaultValue = (case state st key of Some v \<Rightarrow> v | None \<Rightarrow> defaultValue)"

definition setFlag :: "state_manager \<Rightarrow> jsval \<Rightarrow> jsval \<Rightarrow> state_manager" where
  "setFlag st flag v =
     st\<lparr>flags := (flags st)(flag \<mapsto> JBool (truthy v)),
        st_emitted := st_emitted st @ [FLAG_SET flag (JBool (truthy v)) (flags st flag)]\<rparr>"

definition hasFlag :: "state_manager \<Rightarrow> jsval \<Rightarrow> bool" where
  "hasFlag st flag = (flags st flag \<noteq> None \<and> flags st flag = Some (JBool True))"

definition setVariable :: "state_manager \<Rightarrow> jsval \<Rightarrow> jsval \<Rightarrow> state_manager" where
  "setVariable st name v =
     st\<lparr>variables := (variables st)(name \<mapsto> v),
        st_emitted := st_emitted st @ [VARIABLE_SET name v (variables st name)]\<rparr>"

definition getVariable :: "state_manager \<Rightarrow> jsval \<Rightarrow> jsval \<Rightarrow> jsval" where
  "getVariable st name defaultValue =
     (case variables st name of Some v \<Rightarrow> v | None \<Rightarrow> defaultValue)"

text \<open>\<open>this.inventory.get(itemId) || 0\<close>\<close>

definition getItemQuantity :: "state_manager \<Rightarrow> jsval \<Rightarrow> int" where
  "getItemQuantity st itemId = (case inventory st itemId of Some c \<Rightarrow> c | None \<Rightarrow> 0)"



definition hasItem ::
  "(string \<Rightarrow> rat option) \<Rightarrow> state_manager \<Rightarrow> jsval \<Rightarrow> jsval \<Rightarrow> bool" where
  "hasItem tn st itemId quantity =
     js_greater_eq tn (JNum (of_int (getItemQuantity st itemId))) quantity"

subsection \<open>Conditions\<close>

text \<open>
  A condition is a string, a non-object (\<open>null\<close>, \<open>undefined\<close>, a number, a boolean) or
  an object, of which the evaluator reads the properties \<open>type\<close>, \<open>key\<close>, \<open>operator\<close>,
  \<open>value\<close>, \<open>conditions\<close> and \<open>condition\<close>. An absent scalar property is \<open>JUndefined\<close>;
  \<open>conditions\<close> is \<open>None\<close> when it is absent or not an array; an absent \<open>condition\<close> is
  \<open>CondNonObject\<close>.
\<close>

datatype cond =
    CondString string
  | CondNonObject
  | CondObject (ctype: jsval) (ckey: jsval) (coperator: jsval) (cvalue: jsval)
               (cconditions: "cond list option") (ccondition: cond)

definition compareValues ::
  "(string \<Rightarrow> rat option) \<Rightarrow> jsval \<Rightarrow> jsval \<Rightarrow> jsval \<Rightarrow> bool" where
  "compareValues tn a operator b =
     (if operator = JStr ''=='' \<or> operator = JStr ''==='' then a = b
      else if operator = JStr ''!='' \<or> operator = JStr ''!=='' then a \<noteq> b
      else if operator = JStr ''>'' then js_greater tn a b
      else if operator = JStr ''>='' then js_greater_eq tn a b
      else if operator = JStr ''<'' then js_less tn a b
      else if operator = JStr ''<='' then js_less_eq tn a b
      else a = b)"

text \<open>
  The result is \<open>None\<close> where the source throws a TypeError: \<open>conditions.every\<close> or
  \<open>conditions.some\<close> on a condition without a \<open>conditions\<close> array. \<open>every\<close> stops at the
  first false element and \<open>some\<close> at the first true one.
\<close>

fun evaluateCondition :: "(string \<Rightarrow> rat option) \<Rightarrow> state_manager \<Rightarrow> cond \<Rightarrow> bool option"
  and every_cond :: "(string \<Rightarrow> rat option) \<Rightarrow> state_manager \<Rightarrow> cond list \<Rightarrow> bool option"
  and some_cond :: "(string \<Rightarrow> rat option) \<Rightarrow> state_manager \<Rightarrow> cond list \<Rightarrow> bool option"
where
  "evaluateCondition tn st (CondString flag) = Some (hasFlag st (JStr flag))"
| "evaluateCondition tn st CondNonObject = Some True"
| "evaluateCondition tn st (CondObject type key operator v conditions condition) =
     (if type = JStr ''flag'' then Some (hasFlag st key)
      else if type = JStr ''notFlag'' then Some (\<not> hasFlag st key)
      else if type = JStr ''variable'' then
        Some (compareValues tn (getVariable st key (JNum 0)) operator v)
      else if type = JStr ''item'' then Some (hasItem tn st key (js_or v (JNum 1)))
      else if type = JStr ''chapter'' then
        Some (compareValues tn (get st ''currentChapter'' JNull) operator v)
      else if type = JStr ''and'' then
        (case conditions of None \<Rightarrow> None | Some cs \<Rightarrow> every_cond tn st cs)
      else if type = JStr ''or'' then
        (case conditions of None \<Rightarrow> None | Some cs \<Rightarrow> some_cond tn st cs)
      else if type = JStr ''not'' then
        (case evaluateCondition tn st condition of None \<Rightarrow> None | Some b \<Rightarrow> Some (\<not> b))
      else Some True)"
| "every_cond tn st [] = Some True"
| "every_cond tn st (c # cs) =
     (case evaluateCondition tn st c of
        None \<Rightarrow> None
      | Some False \<Rightarrow> Some False
      | Some True \<Rightarrow> every_cond tn st cs)"
| "some_cond tn st [] = Some False"
| "some_cond tn st (c # cs) =
     (case evaluateCondition tn st c of
        None \<Rightarrow> None
      | Some True \<Rightarrow> Some True
      | Some False \<Rightarrow> some_cond tn st cs)"

section \<open>PuzzleController: the base contract\<close>

text \<open>An entry of a puzzle's reward list.\<close>

record reward =
  rtype :: string
  rid :: string
  rquantity :: "int option"
  rname :: string
  rvalue :: jsval

text \<open>
  Everything an instance sends out: events on the global bus, the feedback overlay and
  the hint panel it shows, and the invocations of its callbacks.
\<close>

datatype signal =
    PUZZLE_START string string string
  | PUZZLE_UPDATE string rat nat
  | PUZZLE_HINT string nat string
  | PUZZLE_COMPLETE string int nat nat int "reward list"
  | PUZZLE_FAIL string string nat
  | PUZZLE_RESET string
  | UI_NOTIFICATION string
  | SFX_PLAY string
  | Feedback bool string
  | HintPanel string
  | OnComplete int "reward list"
  | OnFail string
  | OnProgress rat

text \<open>
  Work an instance has handed to \<open>setTimeout\<close> and that has not run yet. No code of the
  repository clears a timeout.
\<close>

datatype task = ShowSequenceTask | CompleteTask

text \<open>
  The fields of a \<open>PuzzleController\<close>. \<open>maxAttempts\<close> is \<open>\<infinity>\<close> for \<open>Infinity\<close>; the three
  callbacks are kept as flags saying whether a handler is attached, and each call is
  recorded in \<open>emitted\<close>; \<open>timerInterval\<close> says whether the one-second interval is
  registered; \<open>pending\<close> holds the timeouts the instance has set. The DOM is a sink
  and is not part of the state. Times are milliseconds.
\<close>

record puzzle =
  pid :: string
  ptype :: string
  title :: string
  description :: string
  difficulty :: string
  isActive :: bool
  isComplete :: bool
  isFailed :: bool
  attempts :: nat
  maxAttempts :: enat
  timeLimit :: int
  timeRemaining :: int
  score :: int
  hints :: "string list"
  hintsUsed :: nat
  maxHints :: nat
  rewards :: "reward list"
  onComplete :: bool
  onFail :: bool
  onProgress :: bool
  timerInterval :: bool
  pending :: "task list"
  emitted :: "signal list"

text \<open>
  Buttons of the sequence puzzle and dials of the resonance puzzle. The icons are
  emoji in the source and are written here as ASCII names.
\<close>

record action =
  act_id :: string
  act_icon :: string
  act_label :: string

record dial =
  dial_id :: string
  dial_label :: string
  dial_min :: rat
  dial_max :: rat
  dial_step :: rat

text \<open>
  The configuration object, with the properties the base class, the sequence puzzle
  and the resonance puzzle read; \<open>None\<close> is an absent property.
\<close>

record config =
  cfg_id :: "string option"
  cfg_type :: "string option"
  cfg_title :: "string option"
  cfg_description :: "string option"
  cfg_difficulty :: "string option"
  cfg_maxAttempts :: "nat option"
  cfg_timeLimit :: "int option"
  cfg_hints :: "string list option"
  cfg_maxHints :: "nat option"
  cfg_rewards :: "reward list option"
  cfg_onComplete :: bool
  cfg_onFail :: bool
  cfg_onProgress :: bool
  cfg_sequence :: "string list option"
  cfg_displayTime :: "int option"
  cfg_inputTime :: "int option"
  cfg_actions :: "action list option"
  cfg_maxRounds :: "nat option"
  cfg_targetPattern :: "rat list option"
  cfg_tolerance :: "rat option"
  cfg_dials :: "dial list option"

text \<open>\<open>x || d\<close> for optional strings and numbers: absent, empty and zero give the default.\<close>

definition str_or :: "string option \<Rightarrow> string \<Rightarrow> string" where
  "str_or x d = (case x of None \<Rightarrow> d | Some s \<Rightarrow> if s = [] then d else s)"

definition int_or :: "int option \<Rightarrow> int \<Rightarrow> int" where
  "int_or x d = (case x of None \<Rightarrow> d | Some n \<Rightarrow> if n = 0 then d else n)"

definition nat_or :: "nat option \<Rightarrow> nat \<Rightarrow> nat" where
  "nat_or x d = (case x of None \<Rightarrow> d | Some n \<Rightarrow> if n = 0 then d else n)"

definition rat_or :: "rat option \<Rightarrow> rat \<Rightarrow> rat" where
  "rat_or x d = (case x of None \<Rightarrow> d | Some n \<Rightarrow> if n = 0 then d else n)"

text \<open>\<open>x || d\<close> for optional arrays: every array, also the empty one, is kept.\<close>

definition list_or :: "'a list option \<Rightarrow> 'a list \<Rightarrow> 'a list" where
  "list_or x d = (case x of None \<Rightarrow> d | Some xs \<Rightarrow> xs)"

text \<open>
  The constructor. \<open>fresh\<close> is the identifier \<open>puzzle_${Date.now()}\<close> that is used when
  the configuration has none.
\<close>

definition new_puzzle :: "string \<Rightarrow> config \<Rightarrow> puzzle" where
  "new_puzzle fresh c =
     \<lparr>pid = str_or (cfg_id c) fresh,
      ptype = str_or (cfg_type c) ''generic'',
      title = str_or (cfg_title c) ''Puzzle'',
      description = str_or (cfg_description c) [],
      difficulty = str_or (cfg_difficulty c) ''normal'',
      isActive = False,
      isComplete = False,
      isFailed = False,
      attempts = 0,
      maxAttempts = (case cfg_maxAttempts c of None \<Rightarrow> \<infinity>
                     | Some n \<Rightarrow> if n = 0 then \<infinity> else enat n),
      timeLimit = int_or (cfg_timeLimit c) 0,
      timeRemaining = int_or (cfg_timeLimit c) 0,
      score = 0,
      hints = list_or (cfg_hints c) [],
      hintsUsed = 0,
      maxHints = nat_or (cfg_maxHints c) (length (list_or (cfg_hints c) [])),
      rewards = list_or (cfg_rewards c) [],
      onComplete = cfg_onComplete c,
      onFail = cfg_onFail c,
      onProgress = cfg_onProgress c,
      timerInterval = False,
      pending = [],
      emitted = []\<rparr>"

definition emit :: "signal list \<Rightarrow> 'a puzzle_scheme \<Rightarrow> 'a puzzle_scheme" where
  "emit sigs p = p\<lparr>emitted := emitted p @ sigs\<rparr>"

definition startTimer :: "'a puzzle_scheme \<Rightarrow> 'a puzzle_scheme" where
  "startTimer p = p\<lparr>timerInterval := True\<rparr>"

definition stopTimer :: "'a puzzle_scheme \<Rightarrow> 'a puzzle_scheme" where
  "stopTimer p = p\<lparr>timerInterval := False\<rparr>"

definition difficultyModifiers :: "string \<Rightarrow> rat" where
  "difficultyModifiers d =
     (if d = ''easy'' then 8 / 10
      else if d = ''normal'' then 1
      else if d = ''hard'' then 12 / 10
      else if d = ''expert'' then 15 / 10
      else 1)"

definition calculateScore :: "'a puzzle_scheme \<Rightarrow> 'a puzzle_scheme" where
  "calculateScore p =
     (let baseScore = 100 - (int (attempts p) - 1) * 10;
          baseScore = baseScore - int (hintsUsed p) * 15;
          baseScore = (if timeLimit p > 0 \<and> timeRemaining p > 0
                       then baseScore
                            + \<lfloor>(of_int (timeRemaining p) / of_int (timeLimit p)) * (20 :: rat)\<rfloor>
                       else baseScore);
          scaled = of_int baseScore * difficultyModifiers (difficulty p)
      in p\<lparr>score := max 0 \<lfloor>scaled\<rfloor>\<rparr>)"

text \<open>
  \<open>complete\<close> and \<open>fail\<close> are asynchronous: they show the feedback, wait 1500 ms and then
  emit and call back. The model takes both halves as one step.
\<close>

definition complete :: "'a puzzle_scheme \<Rightarrow> 'a puzzle_scheme" where
  "complete p =
     (let p = p\<lparr>isActive := False, isComplete := True\<rparr>;
          p = stopTimer p;
          p = calculateScore p
      in emit ([Feedback True ''Puzzle Complete!'',
                PUZZLE_COMPLETE (pid p) (score p) (attempts p) (hintsUsed p)
                                (timeRemaining p) (rewards p)]
               @ (if onComplete p then [OnComplete (score p) (rewards p)] else [])) p)"

definition fail :: "string \<Rightarrow> 'a puzzle_scheme \<Rightarrow> 'a puzzle_scheme" where
  "fail reason p =
     (let p = p\<lparr>isActive := False, isFailed := True\<rparr>;
          p = stopTimer p
      in emit ([Feedback False reason, PUZZLE_FAIL (pid p) reason (attempts p)]
               @ (if onFail p then [OnFail reason] else [])) p)"

definition timeUp :: "'a puzzle_scheme \<Rightarrow> 'a puzzle_scheme" where
  "timeUp p = fail ''Time's up!'' (stopTimer p)"

text \<open>
  The callback that \<open>startTimer\<close> registers with \<open>setInterval(..., 1000)\<close>. A cleared
  interval does not run.
\<close>

definition timerTick :: "'a puzzle_scheme \<Rightarrow> 'a puzzle_scheme" where
  "timerTick p =
     (if timerInterval p then
        (let p = p\<lparr>timeRemaining := timeRemaining p - 1000\<rparr>
         in if timeRemaining p \<le> 0 then timeUp p else p)
      else p)"

definition start :: "'a puzzle_scheme \<Rightarrow> 'a puzzle_scheme" where
  "start p =
     (let p = p\<lparr>isActive := True, isComplete := False, isFailed := False,
                attempts := 0, hintsUsed := 0, timeRemaining := timeLimit p\<rparr>;
          p = (if timeLimit p > 0 then startTimer p else p)
      in emit [PUZZLE_START (pid p) (ptype p) (title p)] p)"

text \<open>
  \<open>submit\<close> calls the variant's \<open>getSolution\<close> and \<open>validateSolution\<close>; \<open>validate\<close> is their
  composition on the instance. \<open>validateSolution\<close> is the one of the base class.
\<close>

definition validateSolution :: "'a puzzle_scheme \<Rightarrow> bool" where
  "validateSolution p = False"

definition submit ::
  "('a puzzle_scheme \<Rightarrow> bool) \<Rightarrow> 'a puzzle_scheme \<Rightarrow> bool \<times> 'a puzzle_scheme" where
  "submit validate p =
     (let p = p\<lparr>attempts := attempts p + 1\<rparr>;
          isCorrect = validate p
      in if isCorrect then (True, complete p)
         else if enat (attempts p) \<ge> maxAttempts p
              then (False, fail ''Maximum attempts reached'' p)
              else (False, emit [Feedback False ''Incorrect solution. Try again!''] p))"

definition reset :: "'a puzzle_scheme \<Rightarrow> 'a puzzle_scheme" where
  "reset p =
     (let p = p\<lparr>attempts := 0, timeRemaining := timeLimit p,
                isComplete := False, isFailed := False\<rparr>;
          p = (if timeLimit p > 0 then startTimer p else p)
      in emit [PUZZLE_RESET (pid p)] p)"

definition useHint :: "'a puzzle_scheme \<Rightarrow> string option \<times> 'a puzzle_scheme" where
  "useHint p =
     (if hintsUsed p \<ge> maxHints p \<or> hintsUsed p \<ge> length (hints p)
      then (None, emit [UI_NOTIFICATION ''No more hints available''] p)
      else
        (let hint = hints p ! hintsUsed p;
             p = p\<lparr>hintsUsed := hintsUsed p + 1\<rparr>;
             p = p\<lparr>score := max 0 (score p - 10)\<rparr>
         in (Some hint, emit [HintPanel hint, PUZZLE_HINT (pid p) (hintsUsed p - 1) hint] p)))"

definition reportProgress :: "rat \<Rightarrow> 'a puzzle_scheme \<Rightarrow> 'a puzzle_scheme" where
  "reportProgress progress p =
     emit ([PUZZLE_UPDATE (pid p) progress (attempts p)]
           @ (if onProgress p then [OnProgress progress] else [])) p"

definition destroy :: "'a puzzle_scheme \<Rightarrow> 'a puzzle_scheme" where
  "destroy p = (stopTimer p)\<lparr>isActive := False\<rparr>"

text \<open>The bonus term of \<open>calculateScore\<close>, named for the proofs.\<close>

definition timeBonus :: "'a puzzle_scheme \<Rightarrow> int" where
  "timeBonus p =
     (if timeLimit p > 0 \<and> timeRemaining p > 0
      then \<lfloor>(of_int (timeRemaining p) / of_int (timeLimit p)) * (20 :: rat)\<rfloor>
      else 0)"

section \<open>RepairSequencePuzzle\<close>

datatype phase = Ready | Showing | Input | Checking

record sequence_puzzle = puzzle +
  sequence :: "string list"
  displayTime :: int
  inputTime :: int
  actions :: "action list"
  phase :: phase
  currentStep :: nat
  playerInput :: "string list"
  roundNo :: nat
  maxRounds :: nat

definition default_actions :: "action list" where
  "default_actions =
     [\<lparr>act_id = ''gear'', act_icon = ''[gear]'', act_label = ''Gear''\<rparr>,
      \<lparr>act_id = ''wrench'', act_icon = ''[wrench]'', act_label = ''Wrench''\<rparr>,
      \<lparr>act_id = ''spark'', act_icon = ''[spark]'', act_label = ''Power''\<rparr>,
      \<lparr>act_id = ''oil'', act_icon = ''[oil]'', act_label = ''Oil''\<rparr>]"

definition new_sequence_puzzle :: "string \<Rightarrow> config \<Rightarrow> sequence_puzzle" where
  "new_sequence_puzzle fresh c =
     (let super = new_puzzle fresh c;
          p = puzzle.extend super
                (sequence_puzzle.fields
                   (list_or (cfg_sequence c) [''[gear]'', ''[wrench]'', ''[spark]'', ''[oil]''])
                   (int_or (cfg_displayTime c) 1000)
                   (int_or (cfg_inputTime c) 5000)
                   (list_or (cfg_actions c) default_actions)
                   Ready 0 [] 1
                   (nat_or (cfg_maxRounds c) 3))
      in p\<lparr>ptype := ''repair-sequence'', timeLimit := inputTime p\<rparr>)"

definition startInputPhase :: "sequence_puzzle \<Rightarrow> sequence_puzzle" where
  "startInputPhase p =
     p\<lparr>phase := Input, playerInput := [], currentStep := 0, timeRemaining := inputTime p\<rparr>"

text \<open>
  \<open>showSequence\<close> highlights the steps one after the other and then opens the input
  phase. \<open>steps\<close> is the number of \<open>.sequence-step\<close> elements the document holds when it
  is called; with fewer elements than steps the loop stops on a TypeError, the promise
  is rejected and the input phase never starts. While the sequence is shown no input
  is accepted, and the model takes the whole run as one step.
\<close>

definition showSequence :: "nat \<Rightarrow> sequence_puzzle \<Rightarrow> sequence_puzzle" where
  "showSequence steps p =
     (let p = p\<lparr>phase := Showing\<rparr>
      in if steps < length (sequence p)
         then emit (replicate steps (SFX_PLAY ''sequence_show'')) p
         else startInputPhase
                (emit (replicate (length (sequence p)) (SFX_PLAY ''sequence_show'')) p))"

definition start_sequence :: "sequence_puzzle \<Rightarrow> sequence_puzzle" where
  "start_sequence p = (let p = start p in p\<lparr>pending := pending p @ [ShowSequenceTask]\<rparr>)"


definition handleTimeUp :: "sequence_puzzle \<Rightarrow> sequence_puzzle" where
  "handleTimeUp p =
     (if phase p \<noteq> Input then p
      else p\<lparr>phase := Checking, pending := pending p @ [ShowSequenceTask]\<rparr>)"




definition validateSolution_sequence :: "sequence_puzzle \<Rightarrow> bool" where
  "validateSolution_sequence p = (playerInput p = sequence p)"

definition reset_sequence :: "sequence_puzzle \<Rightarrow> sequence_puzzle" where
  "reset_sequence p =
     reset (p\<lparr>phase := Ready, currentStep := 0, playerInput := [], roundNo := 1,
              sequence := take 4 (sequence p)\<rparr>)"

text \<open>Running the pending timeout at position \<open>i\<close>.\<close>

definition remove_nth :: "nat \<Rightarrow> 'a list \<Rightarrow> 'a list" where
  "remove_nth i xs = take i xs @ drop (Suc i) xs"

definition runTimeout_sequence :: "nat \<Rightarrow> nat \<Rightarrow> sequence_puzzle \<Rightarrow> sequence_puzzle" where
  "runTimeout_sequence steps i p =
     (if i < length (pending p) then
        (let t = pending p ! i;
             p = p\<lparr>pending := remove_nth i (pending p)\<rparr>
         in case t of ShowSequenceTask \<Rightarrow> showSequence steps p | CompleteTask \<Rightarrow> complete p)
      else p)"

section \<open>ResonancePuzzle\<close>

record resonance_puzzle = puzzle +
  targetPattern :: "rat list"
  tolerance :: rat
  dials :: "dial list"
  dialValues :: "string \<rightharpoonup> rat"
  currentNote :: nat
  matchedNotes :: "nat list"

definition default_dials :: "dial list" where
  "default_dials =
     [\<lparr>dial_id = ''frequency'', dial_label = ''Frequency'',
       dial_min = 200, dial_max = 1000, dial_step = 10\<rparr>,
      \<lparr>dial_id = ''amplitude'', dial_label = ''Amplitude'',
       dial_min = 0, dial_max = 100, dial_step = 5\<rparr>,
      \<lparr>dial_id = ''phase'', dial_label = ''Phase'',
       dial_min = 0, dial_max = 360, dial_step = 15\<rparr>]"

definition centre_dials :: "dial list \<Rightarrow> (string \<rightharpoonup> rat) \<Rightarrow> (string \<rightharpoonup> rat)" where
  "centre_dials ds vals =
     foldl (\<lambda>m d. m(dial_id d \<mapsto> (dial_min d + dial_max d) / 2)) vals ds"

definition new_resonance_puzzle :: "string \<Rightarrow> config \<Rightarrow> resonance_puzzle" where
  "new_resonance_puzzle fresh c =
     (let super = new_puzzle fresh c;
          ds = list_or (cfg_dials c) default_dials;
          p = puzzle.extend super
                (resonance_puzzle.fields
                   (list_or (cfg_targetPattern c) [440, 523, 659, 784])
                   (rat_or (cfg_tolerance c) 20)
                   ds
                   (centre_dials ds Map.empty)
                   0 [])
      in p\<lparr>ptype := ''resonance''\<rparr>)"


text \<open>\<open>this.dialValues.frequency || 440\<close>\<close>

definition currentFrequency :: "resonance_puzzle \<Rightarrow> rat" where
  "currentFrequency p = rat_or (dialValues p ''frequency'') 440"

text \<open>\<open>diff.toFixed(0)\<close> for a difference that is not negative.\<close>

fun digits :: "nat \<Rightarrow> string" where
  "digits n =
     (if n < 10 then [char_of (48 + n)]
      else digits (n div 10) @ [char_of (48 + n mod 10)])"

declare digits.simps [simp del]

definition toFixed0 :: "rat \<Rightarrow> string" where
  "toFixed0 x = digits (nat \<lfloor>x + 1 / 2\<rfloor>)"

definition lockNote :: "resonance_puzzle \<Rightarrow> resonance_puzzle" where
  "lockNote p =
     (if currentNote p \<ge> length (targetPattern p) then p
      else
        (let targetFreq = targetPattern p ! currentNote p;
             currentFreq = currentFrequency p;
             diff = \<bar>targetFreq - currentFreq\<bar>
         in if diff \<le> tolerance p then
              (let p = p\<lparr>matchedNotes := matchedNotes p @ [currentNote p]\<rparr>;
                   p = p\<lparr>currentNote := currentNote p + 1\<rparr>;
                   p = emit [SFX_PLAY ''note_locked''] p;
                   p = reportProgress
                         (of_nat (currentNote p) / of_nat (length (targetPattern p))) p
               in if currentNote p \<ge> length (targetPattern p)
                  then p\<lparr>pending := pending p @ [CompleteTask]\<rparr>
                  else p)
            else emit [Feedback False (''Off by '' @ toFixed0 diff @ '' Hz''),
                       SFX_PLAY ''note_wrong''] p))"

definition validateSolution_resonance :: "resonance_puzzle \<Rightarrow> bool" where
  "validateSolution_resonance p = (length (matchedNotes p) = length (targetPattern p))"

definition reset_resonance :: "resonance_puzzle \<Rightarrow> resonance_puzzle" where
  "reset_resonance p =
     reset (p\<lparr>currentNote := 0, matchedNotes := [],
              dialValues := centre_dials (dials p) (dialValues p)\<rparr>)"

definition destroy_resonance :: "resonance_puzzle \<Rightarrow> resonance_puzzle" where
  "destroy_resonance p = destroy p"

definition runTimeout_resonance :: "nat \<Rightarrow> resonance_puzzle \<Rightarrow> resonance_puzzle" where
  "runTimeout_resonance i p =
     (if i < length (pending p) then
        (let t = pending p ! i;
             p = p\<lparr>pending := remove_nth i (pending p)\<rparr>
         in case t of CompleteTask \<Rightarrow> complete p | ShowSequenceTask \<Rightarrow> p)
      else p)"

section \<open>PuzzleFactory\<close>

datatype puzzle_class =
    MechanicalPuzzle | SpellCraftingPuzzle | DiagnosisPuzzle
  | RepairSequencePuzzle | ResonancePuzzle | PuzzleController

text \<open>
  An instance is an object of one of the registered classes. Of the assembly,
  crafting and diagnosis puzzles only the fields of the base class are kept.
\<close>

datatype inst =
    BaseInst puzzle_class puzzle
  | SequenceInst sequence_puzzle
  | ResonanceInst resonance_puzzle

definition new_inst :: "puzzle_class \<Rightarrow> string \<Rightarrow> config \<Rightarrow> inst" where
  "new_inst cls fresh c =
     (case cls of
        MechanicalPuzzle \<Rightarrow> BaseInst cls ((new_puzzle fresh c)\<lparr>ptype := ''mechanical''\<rparr>)
      | SpellCraftingPuzzle \<Rightarrow> BaseInst cls ((new_puzzle fresh c)\<lparr>ptype := ''spell-crafting''\<rparr>)
      | DiagnosisPuzzle \<Rightarrow> BaseInst cls ((new_puzzle fresh c)\<lparr>ptype := ''diagnosis''\<rparr>)
      | RepairSequencePuzzle \<Rightarrow> SequenceInst (new_sequence_puzzle fresh c)
      | ResonancePuzzle \<Rightarrow> ResonanceInst (new_resonance_puzzle fresh c)
      | PuzzleController \<Rightarrow> BaseInst cls (new_puzzle fresh c))"

text \<open>Fields and methods of an instance, whatever its class.\<close>

fun inst_isActive :: "inst \<Rightarrow> bool" where
  "inst_isActive (BaseInst cls p) = isActive p"
| "inst_isActive (SequenceInst p) = isActive p"
| "inst_isActive (ResonanceInst p) = isActive p"

fun inst_isComplete :: "inst \<Rightarrow> bool" where
  "inst_isComplete (BaseInst cls p) = isComplete p"
| "inst_isComplete (SequenceInst p) = isComplete p"
| "inst_isComplete (ResonanceInst p) = isComplete p"

fun inst_emitted :: "inst \<Rightarrow> signal list" where
  "inst_emitted (BaseInst cls p) = emitted p"
| "inst_emitted (SequenceInst p) = emitted p"
| "inst_emitted (ResonanceInst p) = emitted p"

fun inst_destroy :: "inst \<Rightarrow> inst" where
  "inst_destroy (BaseInst cls p) = BaseInst cls (destroy p)"
| "inst_destroy (SequenceInst p) = SequenceInst (destroy p)"
| "inst_destroy (ResonanceInst p) = ResonanceInst (destroy_resonance p)"

fun inst_start :: "inst \<Rightarrow> inst" where
  "inst_start (BaseInst cls p) = BaseInst cls (start p)"
| "inst_start (SequenceInst p) = SequenceInst (start_sequence p)"
| "inst_start (ResonanceInst p) = ResonanceInst (start p)"

fun inst_setHandlers :: "inst \<Rightarrow> inst" where
  "inst_setHandlers (BaseInst cls p) = BaseInst cls (p\<lparr>onComplete := True, onFail := True\<rparr>)"
| "inst_setHandlers (SequenceInst p) = SequenceInst (p\<lparr>onComplete := True, onFail := True\<rparr>)"
| "inst_setHandlers (ResonanceInst p) = ResonanceInst (p\<lparr>onComplete := True, onFail := True\<rparr>)"

text \<open>
  The factory. \<open>objects\<close> holds every instance created so far, and \<open>currentPuzzle\<close> is a
  position in it, \<open>None\<close> for \<open>null\<close>. The handlers \<open>handlePuzzleComplete\<close> and
  \<open>handlePuzzleFail\<close> write to the state store and are left out; that they are attached
  is recorded in the instance.
\<close>

record factory =
  puzzleTypes :: "string \<rightharpoonup> puzzle_class"
  puzzleConfigs :: "string \<rightharpoonup> config"
  objects :: "inst list"
  currentPuzzle :: "nat option"

definition registerDefaultTypes :: "string \<rightharpoonup> puzzle_class" where
  "registerDefaultTypes =
     [''mechanical'' \<mapsto> MechanicalPuzzle,
      ''spell-crafting'' \<mapsto> SpellCraftingPuzzle,
      ''diagnosis'' \<mapsto> DiagnosisPuzzle,
      ''repair-sequence'' \<mapsto> RepairSequencePuzzle,
      ''resonance'' \<mapsto> ResonancePuzzle,
      ''generic'' \<mapsto> PuzzleController]"

definition new_factory :: "(string \<rightharpoonup> config) \<Rightarrow> factory" where
  "new_factory configs =
     \<lparr>puzzleTypes = registerDefaultTypes, puzzleConfigs = configs,
      objects = [], currentPuzzle = None\<rparr>"

definition create :: "factory \<Rightarrow> string \<Rightarrow> string option \<Rightarrow> config \<Rightarrow> inst" where
  "create f fresh type c =
     (case (case type of None \<Rightarrow> None | Some t \<Rightarrow> puzzleTypes f t) of
        None \<Rightarrow> BaseInst PuzzleController (new_puzzle fresh c)
      | Some PuzzleClass \<Rightarrow> new_inst PuzzleClass fresh c)"

definition createById :: "factory \<Rightarrow> string \<Rightarrow> string \<Rightarrow> inst option" where
  "createById f fresh puzzleId =
     (case puzzleConfigs f puzzleId of
        None \<Rightarrow> None
      | Some c \<Rightarrow> Some (create f fresh (cfg_type c) c))"

text \<open>
  \<open>startPuzzle\<close> takes an identifier (\<open>Inl\<close>) or a configuration (\<open>Inr\<close>) and returns the
  new instance or \<open>null\<close>. It is asynchronous, and the model takes it as one step.
\<close>

definition startPuzzle ::
  "string \<Rightarrow> string + config \<Rightarrow> factory \<Rightarrow> nat option \<times> factory" where
  "startPuzzle fresh puzzle f =
     (let f = (case currentPuzzle f of
                 None \<Rightarrow> f
               | Some r \<Rightarrow>
                   if r < length (objects f) \<and> inst_isActive (objects f ! r)
                   then f\<lparr>objects := (objects f)[r := inst_destroy (objects f ! r)]\<rparr>
                   else f);
          created =
            (case puzzle of
               Inl puzzleId \<Rightarrow> Some (createById f fresh puzzleId)
             | Inr c \<Rightarrow>
                 if str_or (cfg_type c) [] \<noteq> []
                 then Some (Some (create f fresh (cfg_type c) c))
                 else None)
      in case created of
           None \<Rightarrow> (None, f)
         | Some None \<Rightarrow> (None, f\<lparr>currentPuzzle := None\<rparr>)
         | Some (Some i) \<Rightarrow>
             (let r = length (objects f);
                  i = inst_start (inst_setHandlers i)
              in (Some r, f\<lparr>objects := objects f @ [i], currentPuzzle := Some r\<rparr>)))"

text \<open>What happens to the instance at position \<open>r\<close> while the factory stands by.\<close>

fun inst_lockNote :: "inst \<Rightarrow> inst" where
  "inst_lockNote (ResonanceInst p) = ResonanceInst (lockNote p)"
| "inst_lockNote i = i"

fun inst_runTimeout :: "nat \<Rightarrow> nat \<Rightarrow> inst \<Rightarrow> inst" where
  "inst_runTimeout steps n (BaseInst cls p) = BaseInst cls p"
| "inst_runTimeout steps n (SequenceInst p) = SequenceInst (runTimeout_sequence steps n p)"
| "inst_runTimeout steps n (ResonanceInst p) = ResonanceInst (runTimeout_resonance n p)"

fun inst_timerTick :: "inst \<Rightarrow> inst" where
  "inst_timerTick (BaseInst cls p) = BaseInst cls (timerTick p)"
| "inst_timerTick (SequenceInst p) = SequenceInst (timerTick p)"
| "inst_timerTick (ResonanceInst p) = ResonanceInst (timerTick p)"

definition on_object :: "nat \<Rightarrow> (inst \<Rightarrow> inst) \<Rightarrow> factory \<Rightarrow> factory" where
  "on_object r act f =
     (if r < length (objects f) then f\<lparr>objects := (objects f)[r := act (objects f ! r)]\<rparr>
      else f)"

section \<open>Concrete stores, configurations and runs\<close>

text \<open>
  The inputs at which the properties below are instantiated. First a store in chapter
  one with the flag \<open>door_open\<close> set and two gears in the inventory, and a conversion of
  strings to numbers under which no string is a number.
\<close>

definition demo_store :: state_manager where
  "demo_store =
     \<lparr>state = [''currentChapter'' \<mapsto> JNum 1],
      flags = [JStr ''door_open'' \<mapsto> JBool True],
      variables = Map.empty,
      inventory = [JStr ''gear'' \<mapsto> 2],
      st_emitted = []\<rparr>"

definition no_number :: "string \<Rightarrow> rat option" where
  "no_number s = None"

text \<open>The empty configuration object.\<close>

definition no_config :: config where
  "no_config =
     \<lparr>cfg_id = None, cfg_type = None, cfg_title = None, cfg_description = None,
      cfg_difficulty = None, cfg_maxAttempts = None, cfg_timeLimit = None,
      cfg_hints = None, cfg_maxHints = None, cfg_rewards = None,
      cfg_onComplete = False, cfg_onFail = False, cfg_onProgress = False,
      cfg_sequence = None, cfg_displayTime = None, cfg_inputTime = None,
      cfg_actions = None, cfg_maxRounds = None,
      cfg_targetPattern = None, cfg_tolerance = None, cfg_dials = None\<rparr>"

text \<open>
  A resonance puzzle of difficulty expert with a time limit and the single target note
  600 Hz, which is where the frequency dial starts. The note is locked and the
  solution submitted within the first second.
\<close>

definition expert_config :: config where
  "expert_config =
     no_config\<lparr>cfg_id := Some ''tuning'', cfg_type := Some ''resonance'',
                cfg_difficulty := Some ''expert'', cfg_maxAttempts := Some 3,
                cfg_timeLimit := Some 5000, cfg_targetPattern := Some [600]\<rparr>"

definition expert_fresh :: resonance_puzzle where
  "expert_fresh = start (new_resonance_puzzle ''puzzle_0'' expert_config)"

definition expert_started :: resonance_puzzle where
  "expert_started = lockNote expert_fresh"


text \<open>A generic puzzle with a time limit of five seconds and at most two attempts.\<close>

definition timed_config :: config where
  "timed_config =
     no_config\<lparr>cfg_id := Some ''lock'', cfg_maxAttempts := Some 2,
                cfg_timeLimit := Some 5000, cfg_hints := Some [''Look closer'']\<rparr>"

definition timed_puzzle :: puzzle where
  "timed_puzzle = start (new_puzzle ''puzzle_0'' timed_config)"

text \<open>The timed puzzle after one rejected submit.\<close>

definition timed_once :: puzzle where
  "timed_once = snd (submit validateSolution timed_puzzle)"

text \<open>
  A sequence puzzle whose configuration asks for a time limit of three seconds and
  gives no input time.
\<close>

definition valve_config :: config where
  "valve_config =
     no_config\<lparr>cfg_id := Some ''valve'', cfg_type := Some ''repair-sequence'',
                cfg_timeLimit := Some 3000\<rparr>"

definition valve_started :: sequence_puzzle where
  "valve_started = start_sequence (new_sequence_puzzle ''puzzle_0'' valve_config)"











text \<open>
  A factory in which the expert puzzle is started and its only note is locked, so that
  its completion is due in half a second. Before that, a generic puzzle is started.
  Then the timeout of the first puzzle runs.
\<close>

definition lock_config :: config where
  "lock_config = timed_config\<lparr>cfg_type := Some ''generic''\<rparr>"

definition factory_tuning :: factory where
  "factory_tuning =
     on_object 0 inst_lockNote
       (snd (startPuzzle ''puzzle_1'' (Inr expert_config) (new_factory Map.empty)))"

definition factory_lock :: factory where
  "factory_lock = snd (startPuzzle ''puzzle_2'' (Inr lock_config) factory_tuning)"

definition factory_late :: factory where
  "factory_late = on_object 0 (inst_runTimeout 0 0) factory_lock"

section \<open>Properties of the state store\<close>

text \<open>
  Claim C4. In every game state, the condition \<open>{type: 'and', conditions: [A, B]}\<close>
  evaluates to \<open>evaluate(A) && evaluate(B)\<close>: \<open>B\<close> is evaluated only when \<open>A\<close> is true,
  and when both have a value the result is their conjunction. The condition
  \<open>{type: 'not', condition: A}\<close> evaluates to the negation of \<open>A\<close>. A flag check on a
  name that the flag store does not hold is false.
\<close>

theorem evaluateCondition_and_not_flag:
  "evaluateCondition tn st (CondObject (JStr ''and'') k op v (Some [A, B]) c) =
     (case evaluateCondition tn st A of
        None \<Rightarrow> None
      | Some False \<Rightarrow> Some False
      | Some True \<Rightarrow> evaluateCondition tn st B)
   \<and> (evaluateCondition tn st A = Some a \<and> evaluateCondition tn st B = Some b \<longrightarrow>
        evaluateCondition tn st (CondObject (JStr ''and'') k op v (Some [A, B]) c)
          = Some (a \<and> b))
   \<and> evaluateCondition tn st (CondObject (JStr ''not'') k' op' v' cs' A) =
        map_option Not (evaluateCondition tn st A)
   \<and> (flags st f = None \<longrightarrow>
        \<not> hasFlag st f
        \<and> evaluateCondition tn st (CondObject (JStr ''flag'') f op'' v'' cs'' c'') = Some False)"
  by (auto simp: hasFlag_def split: option.splits bool.splits)

text \<open>The door is open and there is no alarm flag.\<close>

theorem evaluateCondition_and_not_flag_witness:
  "evaluateCondition no_number demo_store (CondString ''door_open'') = Some True
   \<and> evaluateCondition no_number demo_store (CondString ''alarm'') = Some False
   \<and> flags demo_store (JStr ''alarm'') = None
   \<and> evaluateCondition no_number demo_store
        (CondObject (JStr ''and'') JUndefined JUndefined JUndefined
           (Some [CondString ''door_open'', CondString ''alarm'']) CondNonObject)
      = Some (True \<and> False)
   \<and> \<not> hasFlag demo_store (JStr ''alarm'')
   \<and> evaluateCondition no_number demo_store
        (CondObject (JStr ''flag'') (JStr ''alarm'') JUndefined JUndefined None CondNonObject)
      = Some False"
proof -
  have a: "evaluateCondition no_number demo_store (CondString ''door_open'') = Some True"
    by (simp add: demo_store_def hasFlag_def)
  have b: "evaluateCondition no_number demo_store (CondString ''alarm'') = Some False"
    by (simp add: demo_store_def hasFlag_def)
  have f: "flags demo_store (JStr ''alarm'') = None"
    by (simp add: demo_store_def)
  note t = evaluateCondition_and_not_flag [of no_number demo_store JUndefined JUndefined JUndefined
                  "CondString ''door_open''" "CondString ''alarm''" CondNonObject True False
                  JUndefined JUndefined JUndefined None "JStr ''alarm''" JUndefined JUndefined None CondNonObject]
  from t a b f show ?thesis by blast
qed

text \<open>
  Claim C5. In every game state, a condition object whose type is none of \<open>flag\<close>,
  \<open>notFlag\<close>, \<open>variable\<close>, \<open>item\<close>, \<open>chapter\<close>, \<open>and\<close>, \<open>or\<close>, \<open>not\<close> evaluates to true; it
  is neither false nor an error.
\<close>

theorem evaluateCondition_unknown_type:
  "t \<notin> {JStr ''flag'', JStr ''notFlag'', JStr ''variable'', JStr ''item'', JStr ''chapter'',
          JStr ''and'', JStr ''or'', JStr ''not''} \<Longrightarrow>
   evaluateCondition tn st (CondObject t k op v cs c) = Some True"
  by simp

text \<open>A misspelt type.\<close>

theorem evaluateCondition_unknown_type_witness:
  "JStr ''flga'' \<notin> {JStr ''flag'', JStr ''notFlag'', JStr ''variable'', JStr ''item'',
                     JStr ''chapter'', JStr ''and'', JStr ''or'', JStr ''not''}
   \<and> evaluateCondition no_number demo_store
        (CondObject (JStr ''flga'') (JStr ''alarm'') JUndefined JUndefined None CondNonObject)
      = Some True"
proof -
  have h: "JStr ''flga'' \<notin> {JStr ''flag'', JStr ''notFlag'', JStr ''variable'', JStr ''item'',
                     JStr ''chapter'', JStr ''and'', JStr ''or'', JStr ''not''}"
    by simp
  from h evaluateCondition_unknown_type [OF h] show ?thesis by (rule conjI)
qed




section \<open>Properties of the base contract\<close>

subsection \<open>What each operation does to the fields\<close>

lemma calculateScore_fields:
  "calculateScore p =
     p\<lparr>score := max 0 \<lfloor>of_int (100 - (int (attempts p) - 1) * 10 - int (hintsUsed p) * 15
                                   + timeBonus p) * difficultyModifiers (difficulty p)\<rfloor>\<rparr>"
  by (simp add: calculateScore_def timeBonus_def Let_def)

lemma complete_fields:
  "complete p =
     p\<lparr>isActive := False, isComplete := True, timerInterval := False,
       score := score (calculateScore p),
       emitted := emitted p @
         ([Feedback True ''Puzzle Complete!'',
           PUZZLE_COMPLETE (pid p) (score (calculateScore p)) (attempts p) (hintsUsed p)
                           (timeRemaining p) (rewards p)]
          @ (if onComplete p then [OnComplete (score (calculateScore p)) (rewards p)] else []))\<rparr>"
  unfolding complete_def stopTimer_def emit_def Let_def calculateScore_fields
  by (simp add: timeBonus_def)

lemma fail_fields:
  "fail reason p =
     p\<lparr>isActive := False, isFailed := True, timerInterval := False,
       emitted := emitted p @
         ([Feedback False reason, PUZZLE_FAIL (pid p) reason (attempts p)]
          @ (if onFail p then [OnFail reason] else []))\<rparr>"
  unfolding fail_def stopTimer_def emit_def Let_def
  by simp

lemma start_fields:
  "start p =
     p\<lparr>isActive := True, isComplete := False, isFailed := False, attempts := 0,
       hintsUsed := 0, timeRemaining := timeLimit p,
       timerInterval := (if timeLimit p > 0 then True else timerInterval p),
       emitted := emitted p @ [PUZZLE_START (pid p) (ptype p) (title p)]\<rparr>"
  unfolding start_def startTimer_def emit_def Let_def
  by simp

lemma reset_fields:
  "reset p =
     p\<lparr>attempts := 0, timeRemaining := timeLimit p, isComplete := False, isFailed := False,
       timerInterval := (if timeLimit p > 0 then True else timerInterval p),
       emitted := emitted p @ [PUZZLE_RESET (pid p)]\<rparr>"
  unfolding reset_def startTimer_def emit_def Let_def
  by simp

lemma submit_cases:
  "submit validate p =
     (if validate (p\<lparr>attempts := attempts p + 1\<rparr>)
      then (True, complete (p\<lparr>attempts := attempts p + 1\<rparr>))
      else if maxAttempts p \<le> enat (attempts p + 1)
           then (False, fail ''Maximum attempts reached'' (p\<lparr>attempts := attempts p + 1\<rparr>))
           else (False, emit [Feedback False ''Incorrect solution. Try again!'']
                          (p\<lparr>attempts := attempts p + 1\<rparr>)))"
  unfolding submit_def Let_def
  by simp

lemma timerTick_cases:
  "timerTick p =
     (if timerInterval p then
        if timeRemaining p - 1000 \<le> 0
        then fail ''Time's up!'' (p\<lparr>timeRemaining := timeRemaining p - 1000,
                                      timerInterval := False\<rparr>)
        else p\<lparr>timeRemaining := timeRemaining p - 1000\<rparr>
      else p)"
  unfolding timerTick_def timeUp_def stopTimer_def Let_def
  by simp

lemma useHint_hintsUsed: "hintsUsed p \<le> hintsUsed (snd (useHint p))"
  unfolding useHint_def emit_def Let_def
  by simp

subsection \<open>Score\<close>














subsection \<open>Submit\<close>

text \<open>
  Claim C2. One call of \<open>submit\<close> on an active puzzle adds exactly one to the attempts.
  If the variant's validator accepts, the puzzle is completed. If it rejects and the
  new count has reached \<open>maxAttempts\<close>, the puzzle fails with the reason
  \<open>Maximum attempts reached\<close>. If it rejects and attempts remain, the only signal is the
  negative feedback, and the puzzle stays active, neither completed nor failed by the
  call.
\<close>

theorem submit_outcomes:
  "isActive p \<Longrightarrow>
   attempts (snd (submit validate p)) = attempts p + 1
   \<and> (validate (p\<lparr>attempts := attempts p + 1\<rparr>) \<longrightarrow>
        submit validate p = (True, complete (p\<lparr>attempts := attempts p + 1\<rparr>))
        \<and> isComplete (snd (submit validate p))
        \<and> \<not> isActive (snd (submit validate p)))
   \<and> (\<not> validate (p\<lparr>attempts := attempts p + 1\<rparr>) \<and> maxAttempts p \<le> enat (attempts p + 1) \<longrightarrow>
        submit validate p
          = (False, fail ''Maximum attempts reached'' (p\<lparr>attempts := attempts p + 1\<rparr>))
        \<and> isFailed (snd (submit validate p))
        \<and> \<not> isActive (snd (submit validate p))
        \<and> emitted (snd (submit validate p))
            = emitted p @ [Feedback False ''Maximum attempts reached'',
                           PUZZLE_FAIL (pid p) ''Maximum attempts reached'' (attempts p + 1)]
                        @ (if onFail p then [OnFail ''Maximum attempts reached''] else []))
   \<and> (\<not> validate (p\<lparr>attempts := attempts p + 1\<rparr>) \<and> enat (attempts p + 1) < maxAttempts p \<longrightarrow>
        snd (submit validate p)
          = p\<lparr>attempts := attempts p + 1,
              emitted := emitted p @ [Feedback False ''Incorrect solution. Try again!'']\<rparr>
        \<and> \<not> fst (submit validate p)
        \<and> isActive (snd (submit validate p))
        \<and> isComplete (snd (submit validate p)) = isComplete p
        \<and> isFailed (snd (submit validate p)) = isFailed p)"
proof (intro conjI impI)
  assume "isActive p"
  show "attempts (snd (submit validate p)) = attempts p + 1"
    by (simp add: submit_cases complete_fields fail_fields emit_def)
next
  assume v: "validate (p\<lparr>attempts := attempts p + 1\<rparr>)"
  then show "submit validate p = (True, complete (p\<lparr>attempts := attempts p + 1\<rparr>))"
    by (simp add: submit_cases)
  from v show "isComplete (snd (submit validate p))"
    by (simp add: submit_cases complete_fields)
  from v show "\<not> isActive (snd (submit validate p))"
    by (simp add: submit_cases complete_fields)
next
  assume "\<not> validate (p\<lparr>attempts := attempts p + 1\<rparr>) \<and> maxAttempts p \<le> enat (attempts p + 1)"
  then have s: "submit validate p
                = (False, fail ''Maximum attempts reached'' (p\<lparr>attempts := attempts p + 1\<rparr>))"
    by (simp add: submit_cases)
  then show "submit validate p
             = (False, fail ''Maximum attempts reached'' (p\<lparr>attempts := attempts p + 1\<rparr>))" .
  show "isFailed (snd (submit validate p))"
    by (simp add: s fail_fields)
  show "\<not> isActive (snd (submit validate p))"
    by (simp add: s fail_fields)
  show "emitted (snd (submit validate p))
        = emitted p @ [Feedback False ''Maximum attempts reached'',
                       PUZZLE_FAIL (pid p) ''Maximum attempts reached'' (attempts p + 1)]
                    @ (if onFail p then [OnFail ''Maximum attempts reached''] else [])"
    by (simp add: s fail_fields)
next
  assume a: "isActive p"
  assume "\<not> validate (p\<lparr>attempts := attempts p + 1\<rparr>) \<and> enat (attempts p + 1) < maxAttempts p"
  then have "\<not> validate (p\<lparr>attempts := attempts p + 1\<rparr>)"
    and "\<not> maxAttempts p \<le> enat (attempts p + 1)"
    by (simp_all add: not_le)
  then have s: "submit validate p
                = (False, emit [Feedback False ''Incorrect solution. Try again!'']
                            (p\<lparr>attempts := attempts p + 1\<rparr>))"
    by (simp add: submit_cases)
  show "snd (submit validate p)
        = p\<lparr>attempts := attempts p + 1,
            emitted := emitted p @ [Feedback False ''Incorrect solution. Try again!'']\<rparr>"
    by (simp add: s emit_def)
  show "\<not> fst (submit validate p)"
    by (simp add: s)
  from a show "isActive (snd (submit validate p))"
    by (simp add: s emit_def)
  show "isComplete (snd (submit validate p)) = isComplete p"
    by (simp add: s emit_def)
  show "isFailed (snd (submit validate p)) = isFailed p"
    by (simp add: s emit_def)
qed

text \<open>
  The expert puzzle with its note locked is accepted. The timed puzzle allows two
  attempts and is of the base class, whose validator rejects: its first submit gives
  the feedback, its second fails it.
\<close>

theorem submit_outcomes_witness:
  "isActive expert_started
   \<and> validateSolution_resonance (expert_started\<lparr>attempts := attempts expert_started + 1\<rparr>)
   \<and> isComplete (snd (submit validateSolution_resonance expert_started))
   \<and> isActive timed_puzzle
   \<and> \<not> validateSolution (timed_puzzle\<lparr>attempts := attempts timed_puzzle + 1\<rparr>)
   \<and> enat (attempts timed_puzzle + 1) < maxAttempts timed_puzzle
   \<and> isActive (snd (submit validateSolution timed_puzzle))
   \<and> attempts (snd (submit validateSolution timed_puzzle)) = attempts timed_puzzle + 1
   \<and> isActive timed_once
   \<and> \<not> validateSolution (timed_once\<lparr>attempts := attempts timed_once + 1\<rparr>)
   \<and> maxAttempts timed_once \<le> enat (attempts timed_once + 1)
   \<and> isFailed (snd (submit validateSolution timed_once))
   \<and> \<not> isActive (snd (submit validateSolution timed_once))"
proof -
  have a1: "isActive expert_started"
    by code_simp
  have v1: "validateSolution_resonance (expert_started\<lparr>attempts := attempts expert_started + 1\<rparr>)"
    by code_simp
  have a2: "isActive timed_puzzle"
    by code_simp
  have v2: "\<not> validateSolution (timed_puzzle\<lparr>attempts := attempts timed_puzzle + 1\<rparr>)"
    by (simp add: validateSolution_def)
  have m2: "enat (attempts timed_puzzle + 1) < maxAttempts timed_puzzle"
    by code_simp
  have a3: "isActive timed_once"
    by code_simp
  have v3: "\<not> validateSolution (timed_once\<lparr>attempts := attempts timed_once + 1\<rparr>)"
    by (simp add: validateSolution_def)
  have m3: "maxAttempts timed_once \<le> enat (attempts timed_once + 1)"
    by code_simp
  from submit_outcomes [OF a1, of validateSolution_resonance]
       submit_outcomes [OF a2, of validateSolution]
       submit_outcomes [OF a3, of validateSolution]
       a1 v1 a2 v2 m2 a3 v3 m3
  show ?thesis
    by blast
qed

subsection \<open>Time expiry\<close>

lemma timerTick_stopped: "\<not> timerInterval p \<Longrightarrow> (timerTick ^^ n) p = p"
  by (induction n) (simp_all add: timerTick_cases)

lemma timerTick_expire:
  assumes "timerInterval p" and "timeRemaining p - 1000 \<le> 0"
  shows "timerTick p
         = fail ''Time's up!'' (p\<lparr>timeRemaining := timeRemaining p - 1000,
                                   timerInterval := False\<rparr>)"
  using assms by (simp add: timerTick_cases)

lemma timerTick_count:
  assumes "timerInterval p" and "\<not> timeRemaining p - 1000 \<le> 0"
  shows "timerTick p = p\<lparr>timeRemaining := timeRemaining p - 1000\<rparr>"
  using assms by (simp add: timerTick_cases)

text \<open>
  Claim C9 says that every puzzle configured with a time limit fails once that much
  time has passed without a submit. The sequence puzzle replaces the configured limit
  by its input time, five seconds when none is given. Configured with
  \<open>timeLimit = 3000\<close> and started, it has seen three ticks of the one-second interval
  after 3001 ms; nothing else of it has run by then, since the first input phase opens
  5.8 seconds after the start. It is active and not failed, with two seconds left.
\<close>

theorem time_expiry_counterexample:
  "cfg_timeLimit valve_config = Some 3000
   \<and> timeLimit valve_started = 5000
   \<and> isActive ((timerTick ^^ 3) valve_started)
   \<and> \<not> isFailed ((timerTick ^^ 3) valve_started)
   \<and> timeRemaining ((timerTick ^^ 3) valve_started) = 2000"
  by code_simp

text \<open>
  Claim C9, amended. Take a puzzle of any variant whose interval timer runs and whose
  remaining time is positive, as \<open>start\<close> leaves it when its time limit is positive; the
  limit is the configured one, except for the sequence puzzle, where it is the input
  time. If nothing but the timer touches the instance, then after \<open>n\<close> ticks, one per
  second, with \<open>1000 n\<close> no less than the remaining time, the puzzle is failed with the
  reason \<open>Time's up!\<close>, it is no longer active and the timer is stopped. Neither the
  attempts used nor \<open>maxAttempts\<close> matter.
\<close>

theorem time_expiry:
  "timerInterval p \<Longrightarrow> 0 < timeRemaining p \<Longrightarrow> timeRemaining p \<le> 1000 * int n \<Longrightarrow>
   isFailed ((timerTick ^^ n) p)
   \<and> \<not> isActive ((timerTick ^^ n) p)
   \<and> \<not> timerInterval ((timerTick ^^ n) p)
   \<and> attempts ((timerTick ^^ n) p) = attempts p
   \<and> emitted ((timerTick ^^ n) p)
       = emitted p @ [Feedback False ''Time's up!'',
                      PUZZLE_FAIL (pid p) ''Time's up!'' (attempts p)]
                   @ (if onFail p then [OnFail ''Time's up!''] else [])"
proof (induction n arbitrary: p)
  case 0
  then show ?case by simp
next
  case (Suc n)
  show ?case
  proof (cases "timeRemaining p - 1000 \<le> 0")
    case True
    note t = timerTick_expire [OF Suc.prems(1) True]
    have "\<not> timerInterval (timerTick p)"
      by (simp add: t fail_fields)
    then have "(timerTick ^^ Suc n) p = timerTick p"
      by (simp add: funpow_swap1 timerTick_stopped)
    then show ?thesis
      by (simp add: t fail_fields)
  next
    case False
    note t = timerTick_count [OF Suc.prems(1) False]
    have "isFailed ((timerTick ^^ n) (timerTick p))
          \<and> \<not> isActive ((timerTick ^^ n) (timerTick p))
          \<and> \<not> timerInterval ((timerTick ^^ n) (timerTick p))
          \<and> attempts ((timerTick ^^ n) (timerTick p)) = attempts (timerTick p)
          \<and> emitted ((timerTick ^^ n) (timerTick p))
              = emitted (timerTick p) @ [Feedback False ''Time's up!'',
                   PUZZLE_FAIL (pid (timerTick p)) ''Time's up!'' (attempts (timerTick p))]
                 @ (if onFail (timerTick p) then [OnFail ''Time's up!''] else [])"
      using Suc.prems False by (intro Suc.IH) (simp_all add: t)
    then show ?thesis
      by (simp add: funpow_swap1 t)
  qed
qed

text \<open>The timed puzzle has a limit of 5000 ms; after 5001 ms the timer has ticked five times.\<close>

theorem time_expiry_witness:
  "timerInterval timed_puzzle \<and> 0 < timeRemaining timed_puzzle
   \<and> timeRemaining timed_puzzle \<le> 1000 * int 5
   \<and> isFailed ((timerTick ^^ 5) timed_puzzle)
   \<and> \<not> isActive ((timerTick ^^ 5) timed_puzzle)
   \<and> emitted ((timerTick ^^ 5) timed_puzzle)
       = emitted timed_puzzle @ [Feedback False ''Time's up!'',
            PUZZLE_FAIL (pid timed_puzzle) ''Time's up!'' (attempts timed_puzzle)]
          @ (if onFail timed_puzzle then [OnFail ''Time's up!''] else [])"
proof -
  have a: "timerInterval timed_puzzle"
    by code_simp
  have b: "0 < timeRemaining timed_puzzle"
    by code_simp
  have c: "timeRemaining timed_puzzle \<le> 1000 * int 5"
    by code_simp
  from time_expiry [OF a b c] a b c show ?thesis
    by blast
qed

subsection \<open>Reset\<close>

lemma reset_sequence_hints: "hintsUsed (reset_sequence p) = hintsUsed p"
  and reset_sequence_score: "score (reset_sequence p) = score p"
  by (simp_all add: reset_sequence_def reset_fields)

lemma reset_resonance_hints: "hintsUsed (reset_resonance p) = hintsUsed p"
  and reset_resonance_score: "score (reset_resonance p) = score p"
  by (simp_all add: reset_resonance_def reset_fields)

text \<open>
  Claim C10. The base \<open>reset\<close> leaves \<open>hintsUsed\<close> and \<open>score\<close> as they are: it sets the
  attempts to zero, the remaining time to the time limit and the completed and failed
  flags to false, restarts the timer of a timed puzzle and emits \<open>PUZZLE_RESET\<close>; every
  other field, \<open>isActive\<close> among them, keeps its value. The same holds for the \<open>reset\<close> of
  the sequence and resonance puzzles, which call it. \<open>start\<close> sets \<open>hintsUsed\<close> to zero, and
  no other operation of the base contract lowers it.
\<close>

theorem reset_keeps_hints_and_score:
  "reset p =
     p\<lparr>attempts := 0, timeRemaining := timeLimit p, isComplete := False, isFailed := False,
       timerInterval := (if timeLimit p > 0 then True else timerInterval p),
       emitted := emitted p @ [PUZZLE_RESET (pid p)]\<rparr>
   \<and> hintsUsed (reset p) = hintsUsed p
   \<and> score (reset p) = score p
   \<and> attempts (reset p) = 0
   \<and> timeRemaining (reset p) = timeLimit p
   \<and> \<not> isComplete (reset p)
   \<and> \<not> isFailed (reset p)
   \<and> isActive (reset p) = isActive p
   \<and> hintsUsed (reset_sequence s) = hintsUsed s
   \<and> score (reset_sequence s) = score s
   \<and> hintsUsed (reset_resonance r) = hintsUsed r
   \<and> score (reset_resonance r) = score r
   \<and> hintsUsed (start p) = 0
   \<and> hintsUsed (snd (submit validate p)) = hintsUsed p
   \<and> hintsUsed (complete p) = hintsUsed p
   \<and> hintsUsed (fail reason p) = hintsUsed p
   \<and> hintsUsed (timerTick p) = hintsUsed p
   \<and> hintsUsed (destroy p) = hintsUsed p
   \<and> hintsUsed (reportProgress progress p) = hintsUsed p
   \<and> hintsUsed p \<le> hintsUsed (snd (useHint p))"
proof (intro conjI)
  show "reset p =
     p\<lparr>attempts := 0, timeRemaining := timeLimit p, isComplete := False, isFailed := False,
       timerInterval := (if timeLimit p > 0 then True else timerInterval p),
       emitted := emitted p @ [PUZZLE_RESET (pid p)]\<rparr>"
    by (rule reset_fields)
  show "hintsUsed (snd (submit validate p)) = hintsUsed p"
    by (simp add: submit_cases complete_fields fail_fields emit_def)
  show "hintsUsed (timerTick p) = hintsUsed p"
    by (simp add: timerTick_cases fail_fields)
  show "hintsUsed p \<le> hintsUsed (snd (useHint p))"
    by (rule useHint_hintsUsed)
  show "hintsUsed (reset_sequence s) = hintsUsed s"
    by (rule reset_sequence_hints)
  show "score (reset_sequence s) = score s"
    by (rule reset_sequence_score)
  show "hintsUsed (reset_resonance r) = hintsUsed r"
    by (rule reset_resonance_hints)
  show "score (reset_resonance r) = score r"
    by (rule reset_resonance_score)
qed (simp_all add: reset_fields start_fields complete_fields fail_fields destroy_def
       stopTimer_def reportProgress_def emit_def)

section \<open>Properties of the sequence puzzle\<close>










lemma remove_nth_last: "remove_nth (length xs) (xs @ [x]) = xs"
  by (simp add: remove_nth_def)

lemma runTimeout_sequence_last:
  "runTimeout_sequence steps (length ts) (p\<lparr>pending := ts @ [ShowSequenceTask]\<rparr>) =
     showSequence steps (p\<lparr>pending := ts\<rparr>)"
  unfolding runTimeout_sequence_def Let_def
  by (simp add: remove_nth_last)



section \<open>Properties of the resonance puzzle\<close>






section \<open>Properties of the factory\<close>

text \<open>
  What \<open>startPuzzle\<close> does when the current puzzle is active and the argument is a
  configuration with a type: the current puzzle is destroyed, and the new instance is
  appended, started and made the current one. After \<open>destroy\<close> the interval timer of an
  instance does nothing.
\<close>

lemma inst_destroy_inactive: "\<not> inst_isActive (inst_destroy i)"
  by (cases i) (simp_all add: destroy_def destroy_resonance_def stopTimer_def)

lemma inst_start_active: "inst_isActive (inst_start i)"
  by (cases i) (simp_all add: start_fields start_sequence_def Let_def)

lemma inst_timerTick_destroyed: "inst_timerTick (inst_destroy i) = inst_destroy i"
  by (cases i)
     (simp_all add: destroy_def destroy_resonance_def stopTimer_def timerTick_cases)

lemma startPuzzle_replaces_active:
  assumes "currentPuzzle f = Some r" and "r < length (objects f)"
    and "inst_isActive (objects f ! r)" and "str_or (cfg_type c) [] \<noteq> []"
  shows "fst (startPuzzle fresh (Inr c) f) = Some (length (objects f))
         \<and> currentPuzzle (snd (startPuzzle fresh (Inr c) f)) = Some (length (objects f))
         \<and> objects (snd (startPuzzle fresh (Inr c) f))
             = (objects f)[r := inst_destroy (objects f ! r)]
               @ [inst_start (inst_setHandlers (create f fresh (cfg_type c) c))]"
  using assms unfolding startPuzzle_def create_def Let_def
  by (simp cong: option.case_cong)

text \<open>
  Claim C3 says that a puzzle replaced by \<open>startPuzzle\<close> is destroyed first and sends no
  signal afterwards. In \<open>factory_tuning\<close> the expert puzzle is the current one, active,
  with its completion pending. Starting the lock puzzle destroys it and puts the lock
  puzzle, the only active instance, into the current-puzzle slot. \<open>destroy\<close> stops the
  interval timer and leaves the timeout alone: when it runs, the destroyed puzzle
  completes, shows its feedback, emits \<open>PUZZLE_COMPLETE\<close> and calls the completion
  handler of the factory.
\<close>

theorem replaced_puzzle_still_completes:
  "currentPuzzle factory_tuning = Some 0
   \<and> inst_isActive (objects factory_tuning ! 0)
   \<and> \<not> inst_isComplete (objects factory_tuning ! 0)
   \<and> currentPuzzle factory_lock = Some 1
   \<and> length (objects factory_lock) = 2
   \<and> \<not> inst_isActive (objects factory_lock ! 0)
   \<and> inst_isActive (objects factory_lock ! 1)
   \<and> inst_emitted (objects factory_lock ! 0) = inst_emitted (objects factory_tuning ! 0)
   \<and> inst_emitted (objects factory_late ! 0)
       = inst_emitted (objects factory_lock ! 0)
         @ [Feedback True ''Puzzle Complete!'',
            PUZZLE_COMPLETE ''tuning'' 195 0 0 5000 [],
            OnComplete 195 []]
   \<and> inst_isComplete (objects factory_late ! 0)
   \<and> currentPuzzle factory_late = Some 1"
  by code_simp


end
